theory Spec2Isabelle
  imports Main "HOL-Library.Sublist" "HOL-Library.AList"
begin

text \<open>
  A model of the two stateful parts of the StartAnime site: the service worker
  (\<^verbatim>\<open>sw.js\<close>: install, activate, the fetch listener and its four handlers) and the
  component loader (\<^verbatim>\<open>assets/js/components.js\<close>: \<^verbatim>\<open>loadComponent\<close> and
  \<^verbatim>\<open>processComponentTemplate\<close>). Asynchronous functions are modelled by what their promise
  settles with; the cache store, the network and the console are an explicit world that
  each function takes and returns. The definitions come first, the facts after them.
\<close>

section \<open>Strings\<close>

text \<open>
  JavaScript strings are modelled as \<^typ>\<open>string\<close>: a list of code units, each below 256.
  \<open>str_includes s sub\<close> is \<^verbatim>\<open>s.includes(sub)\<close>: whether \<open>sub\<close> occurs in \<open>s\<close> as a
  contiguous run, at any position.
\<close>

fun str_includes :: "string \<Rightarrow> string \<Rightarrow> bool" where
  "str_includes [] sub = (sub = [])"
| "str_includes (c # cs) sub = (prefix sub (c # cs) \<or> str_includes cs sub)"

text \<open>\<^verbatim>\<open>s.endsWith(sub)\<close>, used only to state what a suffix test would have computed.\<close>

definition endsWith :: "string \<Rightarrow> string \<Rightarrow> bool" where
  "endsWith s sub = suffix sub s"

section \<open>Service worker: requests and their classification (sw.js)\<close>

record request =
  url :: string
  req_method :: string

text \<open>
  \<^verbatim>\<open>function isStaticFile(request) {
    const staticExtensions = ['.html', '.css', '.js', '.woff2', '.svg'];
    return staticExtensions.some(ext => request.url.includes(ext)); }\<close>
  and its two siblings.
\<close>

definition staticExtensions :: "string list" where
  "staticExtensions = [''.html'', ''.css'', ''.js'', ''.woff2'', ''.svg'']"

definition imageExtensions :: "string list" where
  "imageExtensions = [''.jpg'', ''.jpeg'', ''.png'', ''.webp'', ''.gif'']"

definition isStaticFile :: "request \<Rightarrow> bool" where
  "isStaticFile r = list_ex (\<lambda>ext. str_includes (url r) ext) staticExtensions"

definition isImage :: "request \<Rightarrow> bool" where
  "isImage r = list_ex (\<lambda>ext. str_includes (url r) ext) imageExtensions"

definition isDataFile :: "request \<Rightarrow> bool" where
  "isDataFile r = str_includes (url r) ''.json''"

text \<open>
  The four branches of the fetch listener's \<^verbatim>\<open>if / else if\<close> chain (lines 93 to 101), in
  the order the listener tests them. Each branch hands the request to one handler:
  \<open>Static\<close> to \<^verbatim>\<open>handleStaticFile\<close>, \<open>Image\<close> to \<^verbatim>\<open>handleImage\<close>, \<open>Data\<close> to
  \<^verbatim>\<open>handleDataFile\<close>, \<open>Dynamic\<close> to \<^verbatim>\<open>handleDynamicRequest\<close>.
\<close>

datatype classification = Static | Image | Data | Dynamic

definition classify :: "request \<Rightarrow> classification" where
  "classify r =
     (if isStaticFile r then Static
      else if isImage r then Image
      else if isDataFile r then Data
      else Dynamic)"

text \<open>
  The matching policy in the words of the specification, for comparison with \<open>classify\<close>:
  the URL is tested for ending in one of the extensions, static first, then image, then
  \<^verbatim>\<open>.json\<close>.
\<close>

definition spec_classify_by_suffix :: "request \<Rightarrow> classification" where
  "spec_classify_by_suffix r =
     (if list_ex (\<lambda>ext. endsWith (url r) ext) staticExtensions then Static
      else if list_ex (\<lambda>ext. endsWith (url r) ext) imageExtensions then Image
      else if endsWith (url r) ''.json'' then Data
      else Dynamic)"

section \<open>Service worker: the platform it runs on\<close>

text \<open>
  A response as the handlers see it: the status code, the header list and the body text.
  \<open>ok\<close> is the platform's \<^verbatim>\<open>response.ok\<close>: the status is in the range 200 to 299.
\<close>

record response =
  status :: nat
  headers :: "(string \<times> string) list"
  body :: string

definition ok :: "response \<Rightarrow> bool" where
  "ok resp = (200 \<le> status resp \<and> status resp \<le> 299)"

datatype js_error = TypeError string | Error string

text \<open>The state in which a promise settles; a fulfilled promise of the hooks carries no value.\<close>

datatype settled = Resolved | Rejected js_error

text \<open>
  The cache store. A bucket maps the URL of a GET request to the stored response; the
  store lists the buckets by name, in the order they were created, which is the order
  \<^verbatim>\<open>caches.match\<close> searches them and \<^verbatim>\<open>caches.keys()\<close> reports them. The store is taken
  as the key-value store the specification describes: a put with a GET request stores,
  whatever the response.
\<close>

type_synonym bucket = "(string \<times> response) list"

type_synonym cache_storage = "(string \<times> bucket) list"

text \<open>Everything a run does that is visible outside the returned value, in order.\<close>

datatype effect =
    NetFetch string
  | CachePut string string
  | CacheDelete string
  | ConsoleLog string
  | ConsoleError string
  | SkipWaiting
  | ClientsClaim

text \<open>
  The world of the worker: its origin (relative URLs such as \<^verbatim>\<open>'/offline.html'\<close> are
  resolved against it), the network (what \<^verbatim>\<open>fetch\<close> of a URL settles with: \<open>Inl\<close> a
  rejection, \<open>Inr\<close> a response, of any status), the cache store, and the effects so far.
\<close>

record world =
  origin :: string
  network :: "string \<Rightarrow> js_error + response"
  caches :: cache_storage
  effects :: "effect list"

definition emit :: "effect \<Rightarrow> world \<Rightarrow> world" where
  "emit e w = w\<lparr>effects := effects w @ [e]\<rparr>"

definition resolve :: "world \<Rightarrow> string \<Rightarrow> string" where
  "resolve w path = origin w @ path"

text \<open>\<^verbatim>\<open>await fetch(request)\<close>: one network call, recorded.\<close>

definition fetch :: "world \<Rightarrow> string \<Rightarrow> (js_error + response) \<times> world" where
  "fetch w u = (network w u, emit (NetFetch u) w)"

text \<open>
  \<^verbatim>\<open>caches.match(key)\<close> over the whole store: the first bucket, in creation order, that
  holds the key answers; \<open>None\<close> is JavaScript's \<^verbatim>\<open>undefined\<close>.
\<close>

fun caches_match :: "cache_storage \<Rightarrow> string \<Rightarrow> response option" where
  "caches_match [] key = None"
| "caches_match ((name, b) # rest) key =
     (case map_of b key of
        Some stored \<Rightarrow> Some stored
      | None \<Rightarrow> caches_match rest key)"

text \<open>\<^verbatim>\<open>caches.match(request)\<close>: only a GET request can match.\<close>

definition caches_match_request :: "cache_storage \<Rightarrow> request \<Rightarrow> response option" where
  "caches_match_request cs request =
     (if req_method request = ''GET'' then caches_match cs (url request) else None)"

text \<open>\<^verbatim>\<open>caches.open(name)\<close>: the bucket is created, empty and last, when it does not exist.\<close>

definition caches_open :: "string \<Rightarrow> world \<Rightarrow> world" where
  "caches_open name w =
     (if name \<in> set (map fst (caches w)) then w
      else w\<lparr>caches := caches w @ [(name, [])]\<rparr>)"

definition bucket_put :: "string \<Rightarrow> string \<Rightarrow> response \<Rightarrow> cache_storage \<Rightarrow> cache_storage" where
  "bucket_put name key resp cs =
     map (\<lambda>(n, b). if n = name then (n, AList.update key resp b) else (n, b)) cs"

text \<open>\<^verbatim>\<open>cache.put(key, response)\<close> on the open bucket \<open>name\<close>.\<close>

definition cache_put :: "string \<Rightarrow> string \<Rightarrow> response \<Rightarrow> world \<Rightarrow> world" where
  "cache_put name key resp w =
     emit (CachePut name key) (w\<lparr>caches := bucket_put name key resp (caches w)\<rparr>)"

text \<open>
  \<^verbatim>\<open>const cache = await caches.open(name); cache.put(request, networkResponse.clone());\<close>
  The put of a request that is not a GET is refused by the platform; the handlers do not
  await the put, so the refusal changes nothing they return.
\<close>

definition open_and_put :: "string \<Rightarrow> request \<Rightarrow> response \<Rightarrow> world \<Rightarrow> world" where
  "open_and_put name request resp w =
     (if req_method request = ''GET''
      then cache_put name (url request) resp (caches_open name w)
      else caches_open name w)"

text \<open>\<^verbatim>\<open>caches.delete(name)\<close>.\<close>

definition caches_delete :: "string \<Rightarrow> world \<Rightarrow> world" where
  "caches_delete name w =
     emit (CacheDelete name) (w\<lparr>caches := filter (\<lambda>(n, b). n \<noteq> name) (caches w)\<rparr>)"

section \<open>Service worker: constants (sw.js, lines 6 to 35)\<close>

definition STATIC_CACHE :: string where
  "STATIC_CACHE = ''startanime-static-v1.0.0''"

definition DYNAMIC_CACHE :: string where
  "DYNAMIC_CACHE = ''startanime-dynamic-v1.0.0''"

definition IMAGE_CACHE :: string where
  "IMAGE_CACHE = ''startanime-images-v1.0.0''"

definition STATIC_FILES :: "string list" where
  "STATIC_FILES =
     [''/'',
      ''/index.html'',
      ''/recommend.html'',
      ''/assets/css/main.css'',
      ''/assets/css/mobile-optimizations.css'',
      ''/assets/css/performance.css'',
      ''/assets/css/recomendations.css'',
      ''/assets/css/animations.css'',
      ''/assets/css/components.css'',
      ''/assets/js/main.js'',
      ''/assets/js/recommendations.js'',
      ''/assets/js/animations.js'',
      ''/assets/js/utils.js'',
      ''/assets/fonts/Inter-Regular.woff2'',
      ''/assets/fonts/Inter-Medium.woff2'',
      ''/assets/fonts/Inter-Bold.woff2'',
      ''/assets/images/ui/logo.svg'',
      ''/assets/images/ui/arrow-right.svg'',
      ''/assets/images/ui/star.svg'',
      ''/data/anime-list.json'',
      ''/data/genres.json'',
      ''/data/recommendations.json'']"

section \<open>JSON text of a value (the platform's \<^verbatim>\<open>JSON.stringify\<close>)\<close>

text \<open>
  Only what the worker stringifies is needed: objects whose members are strings or objects.
  A string is written between double quotes, with the quote, the backslash and the control
  characters escaped; an object is written as its members in order, with no white space.
\<close>

datatype json = JString string | JObject "(string \<times> json) list"

definition hex_digit :: "nat \<Rightarrow> char" where
  "hex_digit n = char_of (if n mod 16 < 10 then 48 + n mod 16 else 87 + n mod 16)"

definition json_escape :: "char \<Rightarrow> string" where
  "json_escape c =
     (if c = CHR 0x22 then [CHR 0x5C, CHR 0x22]
      else if c = CHR 0x5C then [CHR 0x5C, CHR 0x5C]
      else if c = CHR 0x08 then [CHR 0x5C, CHR ''b'']
      else if c = CHR 0x0C then [CHR 0x5C, CHR ''f'']
      else if c = CHR 0x0A then [CHR 0x5C, CHR ''n'']
      else if c = CHR 0x0D then [CHR 0x5C, CHR ''r'']
      else if c = CHR 0x09 then [CHR 0x5C, CHR ''t'']
      else if of_char c < (32 :: nat)
        then [CHR 0x5C, CHR ''u'', CHR ''0'', CHR ''0'',
              hex_digit (of_char c div 16), hex_digit (of_char c)]
      else [c])"

definition json_quote :: "string \<Rightarrow> string" where
  "json_quote s = [CHR 0x22] @ concat (map json_escape s) @ [CHR 0x22]"

fun join_comma :: "string list \<Rightarrow> string" where
  "join_comma [] = []"
| "join_comma [x] = x"
| "join_comma (x # y # ys) = x @ '','' @ join_comma (y # ys)"

fun JSON_stringify :: "json \<Rightarrow> string" where
  "JSON_stringify (JString s) = json_quote s"
| "JSON_stringify (JObject members) =
     ''{'' @ join_comma (map (\<lambda>(k, v). json_quote k @ '':'' @ JSON_stringify v) members) @ ''}''"

section \<open>Service worker: install and activate (sw.js, lines 37 to 80)\<close>

text \<open>
  \<^verbatim>\<open>cache.addAll(urls)\<close> of the platform: every URL is fetched; when one fetch is rejected
  or answers with a status that is not ok, the promise rejects with a TypeError and nothing
  is stored; otherwise every response is stored under its URL.
\<close>

fun fetched_ok :: "world \<Rightarrow> string \<Rightarrow> bool" where
  "fetched_ok w u = (case network w u of Inl e \<Rightarrow> False | Inr resp \<Rightarrow> ok resp)"

fun store_all :: "string \<Rightarrow> string list \<Rightarrow> world \<Rightarrow> world" where
  "store_all name [] w = w"
| "store_all name (u # us) w =
     (case network w u of
        Inl e \<Rightarrow> store_all name us w
      | Inr resp \<Rightarrow> store_all name us (cache_put name u resp w))"

definition cache_addAll :: "string \<Rightarrow> string list \<Rightarrow> world \<Rightarrow> settled \<times> world" where
  "cache_addAll name paths w =
     (let us = map (resolve w) paths;
          w1 = fold (\<lambda>u. emit (NetFetch u)) us w
      in if list_all (fetched_ok w) us
         then (Resolved, store_all name us w1)
         else (Rejected (TypeError ''Failed to execute addAll on Cache: Request failed''), w1))"

text \<open>
  The promise chain of the install listener up to, and not including, its \<^verbatim>\<open>.catch\<close>:
  \<^verbatim>\<open>caches.open(STATIC_CACHE)
    .then((cache) => { console.log(...); return cache.addAll(STATIC_FILES); })
    .then(() => { console.log(...); return self.skipWaiting(); })\<close>
\<close>

definition install_chain :: "world \<Rightarrow> settled \<times> world" where
  "install_chain w =
     (let w1 = caches_open STATIC_CACHE w;
          w2 = emit (ConsoleLog ''Service Worker: Caching static files'') w1
      in case cache_addAll STATIC_CACHE STATIC_FILES w2 of
           (Rejected error, w3) \<Rightarrow> (Rejected error, w3)
         | (Resolved, w3) \<Rightarrow>
             (Resolved, emit SkipWaiting (emit (ConsoleLog ''Service Worker: Static files cached'') w3)))"

text \<open>
  The install listener: the promise it hands to \<^verbatim>\<open>event.waitUntil\<close> is the chain with
  \<^verbatim>\<open>.catch((error) => { console.error('Service Worker: Failed to cache static files', error); })\<close>
  at its end. The result is how that promise settles.
\<close>

definition install :: "world \<Rightarrow> settled \<times> world" where
  "install w =
     (case install_chain (emit (ConsoleLog ''Service Worker: Installing...'') w) of
        (Rejected error, w') \<Rightarrow>
          (Resolved, emit (ConsoleError ''Service Worker: Failed to cache static files'') w')
      | (Resolved, w') \<Rightarrow> (Resolved, w'))"

text \<open>
  The activate listener: every name of \<^verbatim>\<open>caches.keys()\<close> that is none of the three
  current bucket names is logged and deleted, then the clients are claimed.
\<close>

definition delete_if_old :: "string \<Rightarrow> world \<Rightarrow> world" where
  "delete_if_old cacheName w =
     (if cacheName \<noteq> STATIC_CACHE \<and> cacheName \<noteq> DYNAMIC_CACHE \<and> cacheName \<noteq> IMAGE_CACHE
      then caches_delete cacheName
             (emit (ConsoleLog (''Service Worker: Deleting old cache '' @ cacheName)) w)
      else w)"

definition activate :: "world \<Rightarrow> settled \<times> world" where
  "activate w =
     (let w1 = emit (ConsoleLog ''Service Worker: Activating...'') w;
          cacheNames = map fst (caches w1);
          w2 = fold delete_if_old cacheNames w1;
          w3 = emit (ConsoleLog ''Service Worker: Activated'') w2
      in (Resolved, emit ClientsClaim w3))"

text \<open>The names a run deleted, in order.\<close>

fun deleted_names :: "effect list \<Rightarrow> string list" where
  "deleted_names [] = []"
| "deleted_names (CacheDelete n # es) = n # deleted_names es"
| "deleted_names (e # es) = deleted_names es"

section \<open>Service worker: the four handlers (sw.js, lines 121 to 232)\<close>

text \<open>
  A handler is an \<^verbatim>\<open>async function\<close>: its result is how its promise settles, \<open>Inl\<close> the
  error it throws, \<open>Inr\<close> the value it returns, which is a response or, where the handler
  returns the result of \<^verbatim>\<open>caches.match\<close>, possibly \<^verbatim>\<open>undefined\<close> (\<open>None\<close>).
\<close>

type_synonym handled = "(js_error + response option) \<times> world"

definition handleStaticFile :: "world \<Rightarrow> request \<Rightarrow> handled" where
  "handleStaticFile w request =
     (case caches_match_request (caches w) request of
        Some cachedResponse \<Rightarrow> (Inr (Some cachedResponse), w)
      | None \<Rightarrow>
          (case fetch w (url request) of
             (Inr networkResponse, w1) \<Rightarrow>
               (Inr (Some networkResponse),
                if ok networkResponse then open_and_put STATIC_CACHE request networkResponse w1
                else w1)
           | (Inl error, w1) \<Rightarrow>
               (let w2 = emit (ConsoleError ''Service Worker: Failed to fetch static file'') w1
                in if str_includes (url request) ''.html''
                   then (Inr (caches_match (caches w2) (resolve w2 ''/offline.html'')), w2)
                   else (Inl error, w2))))"

definition handleImage :: "world \<Rightarrow> request \<Rightarrow> handled" where
  "handleImage w request =
     (case caches_match_request (caches w) request of
        Some cachedResponse \<Rightarrow> (Inr (Some cachedResponse), w)
      | None \<Rightarrow>
          (case fetch w (url request) of
             (Inr networkResponse, w1) \<Rightarrow>
               (Inr (Some networkResponse),
                if ok networkResponse then open_and_put IMAGE_CACHE request networkResponse w1
                else w1)
           | (Inl error, w1) \<Rightarrow>
               (let w2 = emit (ConsoleError ''Service Worker: Failed to fetch image'') w1
                in (Inr (caches_match (caches w2) (resolve w2 ''/assets/images/placeholder.jpg'')),
                    w2))))"

text \<open>
  \<^verbatim>\<open>new Response(JSON.stringify({ error: 'Data unavailable offline' }),
      { headers: { 'Content-Type': 'application/json' } })\<close>: the status defaults to 200.
\<close>

definition offline_data_response :: response where
  "offline_data_response =
     \<lparr>status = 200,
      headers = [(''Content-Type'', ''application/json'')],
      body = JSON_stringify (JObject [(''error'', JString ''Data unavailable offline'')])\<rparr>"

definition handleDataFile :: "world \<Rightarrow> request \<Rightarrow> handled" where
  "handleDataFile w request =
     (case caches_match_request (caches w) request of
        Some cachedResponse \<Rightarrow> (Inr (Some cachedResponse), w)
      | None \<Rightarrow>
          (case fetch w (url request) of
             (Inr networkResponse, w1) \<Rightarrow>
               (Inr (Some networkResponse),
                if ok networkResponse then open_and_put DYNAMIC_CACHE request networkResponse w1
                else w1)
           | (Inl error, w1) \<Rightarrow>
               (let w2 = emit (ConsoleError ''Service Worker: Failed to fetch data file'') w1
                in (Inr (Some offline_data_response), w2))))"

definition handleDynamicRequest :: "world \<Rightarrow> request \<Rightarrow> handled" where
  "handleDynamicRequest w request =
     (case fetch w (url request) of
        (Inr networkResponse, w1) \<Rightarrow>
          (Inr (Some networkResponse),
           if ok networkResponse then open_and_put DYNAMIC_CACHE request networkResponse w1
           else w1)
      | (Inl error, w1) \<Rightarrow>
          (let w2 = emit (ConsoleError ''Service Worker: Failed to fetch dynamic request'') w1
           in case caches_match_request (caches w2) request of
                Some cachedResponse \<Rightarrow> (Inr (Some cachedResponse), w2)
              | None \<Rightarrow> (Inl error, w2)))"

section \<open>Service worker: the fetch listener (sw.js, lines 82 to 102)\<close>

text \<open>
  \<open>None\<close>: the listener returns without \<^verbatim>\<open>event.respondWith\<close> (a request that is not a
  GET). \<open>Some\<close>: the promise handed to \<^verbatim>\<open>respondWith\<close>, as the handler settles it.
\<close>

definition fetch_listener :: "world \<Rightarrow> request \<Rightarrow> handled option" where
  "fetch_listener w request =
     (if req_method request \<noteq> ''GET'' then None
      else if isStaticFile request then Some (handleStaticFile w request)
      else if isImage request then Some (handleImage w request)
      else if isDataFile request then Some (handleDataFile w request)
      else Some (handleDynamicRequest w request))"

text \<open>The handler each branch of the listener calls.\<close>

fun handler_of :: "classification \<Rightarrow> world \<Rightarrow> request \<Rightarrow> handled" where
  "handler_of Static = handleStaticFile"
| "handler_of Image = handleImage"
| "handler_of Data = handleDataFile"
| "handler_of Dynamic = handleDynamicRequest"

section \<open>Reading the cache store, and the worlds of the examples\<close>

text \<open>What the bucket \<open>name\<close> holds under \<open>key\<close>; \<open>None\<close> also when there is no such bucket.\<close>

definition stored_in :: "cache_storage \<Rightarrow> string \<Rightarrow> string \<Rightarrow> response option" where
  "stored_in cs name key = (case map_of cs name of None \<Rightarrow> None | Some b \<Rightarrow> map_of b key)"

definition example_origin :: string where
  "example_origin = ''https://startanime.app''"

definition home_page :: response where
  "home_page =
     \<lparr>status = 200, headers = [(''Content-Type'', ''text/html'')], body = ''<h1>StartAnime</h1>''\<rparr>"

text \<open>A network on which every fetch is rejected, and one that answers every URL with a page.\<close>

definition offline_network :: "string \<Rightarrow> js_error + response" where
  "offline_network u = Inl (TypeError ''Failed to fetch'')"

definition online_network :: "string \<Rightarrow> js_error + response" where
  "online_network u = Inr home_page"

definition fresh_offline_world :: world where
  "fresh_offline_world =
     \<lparr>origin = example_origin, network = offline_network, caches = [], effects = []\<rparr>"

definition fresh_online_world :: world where
  "fresh_online_world =
     \<lparr>origin = example_origin, network = online_network, caches = [], effects = []\<rparr>"

text \<open>The worker was installed while online; the network is gone afterwards.\<close>

definition installed_offline_world :: world where
  "installed_offline_world =
     (snd (install fresh_online_world))\<lparr>network := offline_network, effects := []\<rparr>"

definition genres_request :: request where
  "genres_request = \<lparr>url = ''https://startanime.app/data/genres.json'', req_method = ''GET''\<rparr>"

definition cover_request :: request where
  "cover_request =
     \<lparr>url = ''https://startanime.app/assets/images/anime-covers/naruto.jpg'', req_method = ''GET''\<rparr>"

definition root_request :: request where
  "root_request = \<lparr>url = ''https://startanime.app/'', req_method = ''GET''\<rparr>"

text \<open>The three bucket names of the current version.\<close>

definition is_current :: "string \<Rightarrow> bool" where
  "is_current n = (n = STATIC_CACHE \<or> n = DYNAMIC_CACHE \<or> n = IMAGE_CACHE)"

text \<open>The store of the activation example: the current static bucket, a stale one, a foreign one.\<close>

definition example_buckets_world :: world where
  "example_buckets_world =
     \<lparr>origin = example_origin, network = online_network,
      caches = [(''startanime-static-v1.0.0'', [(''https://startanime.app/index.html'', home_page)]),
                (''startanime-static-v0.9.0'', [(''https://startanime.app/index.html'', home_page)]),
                (''other-app-cache'', [])],
      effects = []\<rparr>"

section \<open>Component loader: loading a component (components.js, lines 6 to 139)\<close>

text \<open>
  White space as \<^verbatim>\<open>String.prototype.trim\<close> and the pattern \<^verbatim>\<open>\s\<close> know it, among the code
  units below 256: tab, line feed, vertical tab, form feed, carriage return, space and
  the no-break space.
\<close>

definition is_space :: "char \<Rightarrow> bool" where
  "is_space c = (of_char c \<in> {9, 10, 11, 12, 13, 32, 160 :: nat})"

definition trim :: "string \<Rightarrow> string" where
  "trim s = rev (dropWhile is_space (rev (dropWhile is_space s)))"

text \<open>
  What \<^verbatim>\<open>fetch\<close> resolves with on the page: a response and its status text.
\<close>

record fetched = response +
  statusText :: string

text \<open>
  The document side of \<^verbatim>\<open>extractComponentContent\<close> is the platform's:
  \<open>outerHTML_of html selector\<close> is the \<^verbatim>\<open>outerHTML\<close> of the first element that
  \<^verbatim>\<open>new DOMParser().parseFromString(html, 'text/html').querySelector(selector)\<close> finds,
  \<open>None\<close> when it finds none; \<open>body_innerHTML html\<close> is the \<^verbatim>\<open>innerHTML\<close> of the
  \<^verbatim>\<open>body\<close> of that document.
\<close>

record dom =
  outerHTML_of :: "string \<Rightarrow> string \<Rightarrow> string option"
  body_innerHTML :: "string \<Rightarrow> string option"

definition body_or_empty :: "dom \<Rightarrow> string \<Rightarrow> string" where
  "body_or_empty d html = (case body_innerHTML d html of Some inner \<Rightarrow> inner | None \<Rightarrow> [])"

definition extractComponentContent :: "dom \<Rightarrow> string \<Rightarrow> string \<Rightarrow> string" where
  "extractComponentContent d html componentName =
     (if str_includes html ''<!--'' \<and> str_includes html ''Component Template -->'' then trim html
      else if componentName = ''header'' then
        (case outerHTML_of d html ''.header__nav'' of
           Some headerNav \<Rightarrow> headerNav
         | None \<Rightarrow> body_or_empty d html)
      else if componentName = ''footer'' then
        (case outerHTML_of d html ''.footer'' of
           Some footer \<Rightarrow> footer
         | None \<Rightarrow> body_or_empty d html)
      else if componentName = ''anime-card'' then
        (case outerHTML_of d html ''.anime-card'' of
           Some animeCard \<Rightarrow> animeCard
         | None \<Rightarrow> [])
      else if componentName = ''genre-card'' then
        (case outerHTML_of d html ''.genre-card'' of
           Some genreCard \<Rightarrow> genreCard
         | None \<Rightarrow> [])
      else body_or_empty d html)"

text \<open>What a run of the loader does that is visible outside the returned value.\<close>

datatype page_effect =
    PageFetch string
  | MemoSet string
  | PageLog string
  | PageError string

text \<open>
  The loader and the page around it: the network of the page, the platform's document
  functions, the loader's \<^verbatim>\<open>componentCache\<close> (a \<^verbatim>\<open>Map\<close> from component name to
  markup), and the effects so far.
\<close>

record loader =
  page_network :: "string \<Rightarrow> js_error + fetched"
  page_dom :: dom
  componentCache :: "(string \<times> string) list"
  page_effects :: "page_effect list"

definition page_emit :: "page_effect \<Rightarrow> loader \<Rightarrow> loader" where
  "page_emit e l = l\<lparr>page_effects := page_effects l @ [e]\<rparr>"

definition page_fetch :: "loader \<Rightarrow> string \<Rightarrow> (js_error + fetched) \<times> loader" where
  "page_fetch l u = (page_network l u, page_emit (PageFetch u) l)"

text \<open>The decimal digits of a status code, for the message of the error.\<close>

fun decimal :: "nat \<Rightarrow> string" where
  "decimal n = (if n < 10 then [char_of (48 + n)] else decimal (n div 10) @ [char_of (48 + n mod 10)])"

text \<open>
  The end of the \<^verbatim>\<open>try\<close> block of \<^verbatim>\<open>loadComponent\<close>: the text of the response is
  read, the content extracted, stored in the memo and returned.
\<close>

definition extract_and_memoize :: "loader \<Rightarrow> string \<Rightarrow> fetched \<Rightarrow> (js_error + string) \<times> loader" where
  "extract_and_memoize l componentName resp =
     (let html = body resp;
          componentHTML = extractComponentContent (page_dom l) html componentName;
          l1 = page_emit (MemoSet componentName)
                 (l\<lparr>componentCache := AList.update componentName componentHTML (componentCache l)\<rparr>);
          l2 = page_emit
                 (PageLog (''ComponentLoader: Loaded component '' @ [CHR 0x22] @ componentName
                           @ [CHR 0x22])) l1
      in (Inr componentHTML, l2))"

text \<open>The \<^verbatim>\<open>catch\<close> block: the error is logged and thrown again.\<close>

definition log_and_rethrow :: "loader \<Rightarrow> string \<Rightarrow> js_error \<Rightarrow> (js_error + string) \<times> loader" where
  "log_and_rethrow l componentName error =
     (Inl error,
      page_emit
        (PageError (''ComponentLoader: Failed to load component '' @ [CHR 0x22] @ componentName
                    @ [CHR 0x22, CHR '':''])) l)"

definition template_url :: "string \<Rightarrow> string" where
  "template_url componentName = ''./components/'' @ componentName @ ''-template.html''"

definition fallback_url :: "string \<Rightarrow> string" where
  "fallback_url componentName = ''./components/'' @ componentName @ ''.html''"

text \<open>
  \<^verbatim>\<open>async loadComponent(componentName)\<close>: the memo answers when it has the name; otherwise
  the template file is fetched, and when its status is not ok, the full file.
\<close>

definition loadComponent :: "loader \<Rightarrow> string \<Rightarrow> (js_error + string) \<times> loader" where
  "loadComponent l componentName =
     (case map_of (componentCache l) componentName of
        Some componentHTML \<Rightarrow> (Inr componentHTML, l)
      | None \<Rightarrow>
          (case page_fetch l (template_url componentName) of
             (Inl error, l1) \<Rightarrow> log_and_rethrow l1 componentName error
           | (Inr resp, l1) \<Rightarrow>
               if ok (response.truncate resp) then extract_and_memoize l1 componentName resp
               else
                 (case page_fetch l1 (fallback_url componentName) of
                    (Inl error, l2) \<Rightarrow> log_and_rethrow l2 componentName error
                  | (Inr resp2, l2) \<Rightarrow>
                      if \<not> ok (response.truncate resp2)
                      then log_and_rethrow l2 componentName
                             (Error (''HTTP '' @ decimal (status resp2) @ '': '' @ statusText resp2))
                      else extract_and_memoize l2 componentName resp2)))"

text \<open>The URLs a run fetched, in order, and whether it wrote to the memo.\<close>

fun fetched_urls :: "page_effect list \<Rightarrow> string list" where
  "fetched_urls [] = []"
| "fetched_urls (PageFetch u # es) = u # fetched_urls es"
| "fetched_urls (e # es) = fetched_urls es"

text \<open>
  The page of the example: there is no \<^verbatim>\<open>header-template.html\<close> (the server answers 404),
  and \<^verbatim>\<open>header.html\<close> holds a navigation bar without the class \<^verbatim>\<open>header__nav\<close>, so the
  content is the inner HTML of the body.
\<close>

definition header_html :: string where
  "header_html = ''<nav>Home</nav>''"

definition example_page_network :: "string \<Rightarrow> js_error + fetched" where
  "example_page_network u =
     (if u = ''./components/header.html''
      then Inr \<lparr>status = 200, headers = [], body = header_html, statusText = ''OK''\<rparr>
      else Inr \<lparr>status = 404, headers = [], body = ''Not Found'', statusText = ''Not Found''\<rparr>)"

definition example_dom :: dom where
  "example_dom = \<lparr>outerHTML_of = (\<lambda>html selector. None), body_innerHTML = (\<lambda>html. Some html)\<rparr>"

definition example_loader :: loader where
  "example_loader =
     \<lparr>page_network = example_page_network, page_dom = example_dom,
      componentCache = [], page_effects = []\<rparr>"

section \<open>Component loader: template substitution (components.js, lines 172 to 193)\<close>

text \<open>
  The second argument of \<^verbatim>\<open>processComponentTemplate\<close>, by what the method does with it:
  \<^item> \<open>NoData\<close>: the argument is falsy (\<^verbatim>\<open>null\<close>, \<^verbatim>\<open>undefined\<close> or the empty string);
  \<^item> \<open>Malformed\<close>: \<^verbatim>\<open>JSON.parse(dataString)\<close> throws;
  \<^item> \<open>ParsedNull\<close>: it parses to \<^verbatim>\<open>null\<close>, on which \<^verbatim>\<open>Object.keys\<close> throws;
  \<^item> \<open>Entries kvs\<close>: it parses to a value \<^verbatim>\<open>data\<close>; \<open>kvs\<close> lists the keys of
    \<^verbatim>\<open>Object.keys(data)\<close> in their order, each with the string that \<^verbatim>\<open>data[key]\<close> is
    converted to when it is passed to \<^verbatim>\<open>String.prototype.replace\<close>.
\<close>

datatype data_arg = NoData | Malformed | ParsedNull | Entries "(string \<times> string) list"

text \<open>
  The pattern is built from the key as it is: \<^verbatim>\<open>new RegExp(`{{\\s*${key}\\s*}}`, 'g')\<close>.
  The model covers the keys that the pattern reads as literal text and that the first
  \<^verbatim>\<open>\s*\<close> cannot eat into: no character of the key is one of the syntax characters of
  regular expressions, and the key does not start with white space.
\<close>

definition regex_syntax_chars :: string where
  "regex_syntax_chars =
     [CHR 0x5C, CHR ''^'', CHR ''$'', CHR ''.'', CHR ''*'', CHR ''+'', CHR ''?'', CHR ''('',
      CHR '')'', CHR ''['', CHR '']'', CHR ''{'', CHR ''}'', CHR ''|'']"

definition plain_key :: "string \<Rightarrow> bool" where
  "plain_key key =
     (list_all (\<lambda>c. c \<notin> set regex_syntax_chars) key
      \<and> (case key of [] \<Rightarrow> True | c # cs \<Rightarrow> \<not> is_space c))"

text \<open>\<open>strip_prefix p s\<close>: what follows \<open>p\<close> in \<open>s\<close>, when \<open>s\<close> starts with \<open>p\<close>.\<close>

fun strip_prefix :: "string \<Rightarrow> string \<Rightarrow> string option" where
  "strip_prefix [] s = Some s"
| "strip_prefix (p # ps) [] = None"
| "strip_prefix (p # ps) (c # cs) = (if p = c then strip_prefix ps cs else None)"

text \<open>
  A match of \<^verbatim>\<open>{{\s*key\s*}}\<close> at the start of \<open>s\<close>, for a plain key: the matched text and
  what follows it. Both \<^verbatim>\<open>\s*\<close> are greedy and what follows each cannot start with
  white space, so each takes the whole run of white space.
\<close>

definition match_placeholder :: "string \<Rightarrow> string \<Rightarrow> (string \<times> string) option" where
  "match_placeholder key s =
     (case strip_prefix ''{{'' s of
        None \<Rightarrow> None
      | Some s1 \<Rightarrow>
          (case strip_prefix key (dropWhile is_space s1) of
             None \<Rightarrow> None
           | Some s2 \<Rightarrow>
               (case strip_prefix ''}}'' (dropWhile is_space s2) of
                  None \<Rightarrow> None
                | Some rest \<Rightarrow>
                    Some (''{{'' @ takeWhile is_space s1 @ key @ takeWhile is_space s2 @ ''}}'',
                          rest))))"

text \<open>
  The replacement text of one match, as \<^verbatim>\<open>String.prototype.replace\<close> builds it from a
  replacement string when the pattern has no capture group: \<^verbatim>\<open>$$\<close> gives a dollar sign,
  \<^verbatim>\<open>$&\<close> the matched text, \<^verbatim>\<open>$`\<close> the text before the match, \<^verbatim>\<open>$'\<close> the text after
  it; any other character, a dollar sign included, stands for itself.
\<close>

fun expand_replacement :: "string \<Rightarrow> string \<Rightarrow> string \<Rightarrow> string \<Rightarrow> string" where
  "expand_replacement [] matched before after = []"
| "expand_replacement [c] matched before after = [c]"
| "expand_replacement (c # d # rest) matched before after =
     (if c = CHR ''$'' \<and> d = CHR ''$'' then CHR ''$'' # expand_replacement rest matched before after
      else if c = CHR ''$'' \<and> d = CHR ''&'' then matched @ expand_replacement rest matched before after
      else if c = CHR ''$'' \<and> d = CHR 0x60 then before @ expand_replacement rest matched before after
      else if c = CHR ''$'' \<and> d = CHR 0x27 then after @ expand_replacement rest matched before after
      else c # expand_replacement (d # rest) matched before after)"

text \<open>
  \<^verbatim>\<open>str.replace(placeholder, value)\<close> with the global pattern of a plain key: the string
  is scanned from the left; \<open>before\<close> is the part of the string already passed.
\<close>

function replace_from :: "string \<Rightarrow> string \<Rightarrow> string \<Rightarrow> string \<Rightarrow> string" where
  "replace_from key val before [] = []"
| "replace_from key val before (c # cs) =
     (case match_placeholder key (c # cs) of
        Some (matched, rest) \<Rightarrow>
          expand_replacement val matched before rest @ replace_from key val (before @ matched) rest
      | None \<Rightarrow> c # replace_from key val (before @ [c]) cs)"
  by pat_completeness auto
termination
proof (relation "measure (\<lambda>(key, val, before, s). length s)")
  show "wf (measure (\<lambda>(key, val, before, s). length s))"
    by simp
next
  fix key val before :: string and c cs x2 matched rest
  assume m: "match_placeholder key (c # cs) = Some x2" and x: "(matched, rest) = x2"
  have drop: "length (dropWhile is_space t) \<le> length t" for t :: string
    by (rule length_dropWhile_le)
  have strip: "strip_prefix p t = Some r \<Longrightarrow> length r \<le> length t" for p t r
    by (induction p t rule: strip_prefix.induct) (auto split: if_splits)
  from m x obtain s1 s2 where
    s1: "strip_prefix ''{{'' (c # cs) = Some s1"
    and s2: "strip_prefix key (dropWhile is_space s1) = Some s2"
    and r: "strip_prefix ''}}'' (dropWhile is_space s2) = Some rest"
    by (auto simp: match_placeholder_def split: option.splits)
  from s1 have "length s1 < length (c # cs)"
    by (cases cs) (auto split: if_splits)
  moreover from strip [OF s2] drop [of s1] have "length s2 \<le> length s1"
    by simp
  moreover from strip [OF r] drop [of s2] have "length rest \<le> length s2"
    by simp
  ultimately show "((key, val, before @ matched, rest), key, val, before, c # cs)
      \<in> measure (\<lambda>(key, val, before, s). length s)"
    by simp
next
  fix key val before :: string and c cs
  show "((key, val, before @ [c], cs), key, val, before, c # cs)
      \<in> measure (\<lambda>(key, val, before, s). length s)"
    by simp
qed

text \<open>
  The \<^verbatim>\<open>forEach\<close> over the keys: one global replace per key, each on the result of the
  one before. \<open>None\<close>: the data has a key that is not plain, whose pattern this model
  does not cover.
\<close>

fun substitute_keys :: "(string \<times> string) list \<Rightarrow> string \<Rightarrow> string option" where
  "substitute_keys [] processedTemplate = Some processedTemplate"
| "substitute_keys ((key, val) # kvs) processedTemplate =
     (if plain_key key
      then substitute_keys kvs (replace_from key val [] processedTemplate)
      else None)"

definition processComponentTemplate :: "string \<Rightarrow> data_arg \<Rightarrow> string option" where
  "processComponentTemplate template dataString =
     (case dataString of
        NoData \<Rightarrow> Some template
      | Malformed \<Rightarrow> Some template
      | ParsedNull \<Rightarrow> Some template
      | Entries kvs \<Rightarrow> substitute_keys kvs template)"

section \<open>Facts about substring search\<close>

lemma includes_iff_sublist: "str_includes s sub \<longleftrightarrow> sublist sub s"
  by (induction s) (auto simp: sublist_Cons_right)

lemma includes_trans: "str_includes s mid \<Longrightarrow> str_includes mid sub \<Longrightarrow> str_includes s sub"
  unfolding includes_iff_sublist by (rule sublist_order.order_trans)

lemma json_includes_js: "str_includes ''.json'' ''.js''"
  by simp

lemma static_of_json: "str_includes u ''.json'' \<Longrightarrow> list_ex (str_includes u) staticExtensions"
  using includes_trans [OF _ json_includes_js] by (auto simp: staticExtensions_def)

section \<open>Facts about the cache store\<close>

lemma network_emit [simp]: "network (emit e w) = network w"
  and caches_emit [simp]: "caches (emit e w) = caches w"
  and origin_emit [simp]: "origin (emit e w) = origin w"
  and effects_emit [simp]: "effects (emit e w) = effects w @ [e]"
  by (simp_all add: emit_def)

lemma network_cache_put [simp]: "network (cache_put name key resp w) = network w"
  and origin_cache_put [simp]: "origin (cache_put name key resp w) = origin w"
  and caches_cache_put [simp]: "caches (cache_put name key resp w) = bucket_put name key resp (caches w)"
  and effects_cache_put [simp]: "effects (cache_put name key resp w) = effects w @ [CachePut name key]"
  by (simp_all add: cache_put_def)

lemma network_caches_open [simp]: "network (caches_open name w) = network w"
  and origin_caches_open [simp]: "origin (caches_open name w) = origin w"
  and effects_caches_open [simp]: "effects (caches_open name w) = effects w"
  by (simp_all add: caches_open_def)

lemma resolve_fn [simp]:
  "resolve (emit e w) = resolve w" "resolve (caches_open name w) = resolve w"
  by (auto simp: resolve_def fun_eq_iff)

lemma fetched_ok_fn [simp]:
  "fetched_ok (emit e w) = fetched_ok w" "fetched_ok (caches_open name w) = fetched_ok w"
  by (auto simp: fun_eq_iff)

lemma names_bucket_put [simp]: "map fst (bucket_put name key resp cs) = map fst cs"
  by (induction cs) (auto simp: bucket_put_def)

lemma name_in_caches_open: "name \<in> fst ` set (caches (caches_open name w))"
  by (auto simp: caches_open_def)

lemma stored_in_bucket_put:
  "stored_in (bucket_put name key resp cs) name k =
     (if name \<in> fst ` set cs \<and> k = key then Some resp else stored_in cs name k)"
proof (induction cs)
  case Nil
  show ?case by (simp add: bucket_put_def stored_in_def)
next
  case (Cons nb cs)
  obtain n b where nb: "nb = (n, b)" by (cases nb)
  from Cons show ?case
    by (auto simp: nb bucket_put_def stored_in_def update_conv' split: option.splits)
qed

lemma stored_in_caches_open:
  "stored_in (caches (caches_open name w)) n k = stored_in (caches w) n k"
proof (cases "name \<in> set (map fst (caches w))")
  case True
  then show ?thesis by (simp add: caches_open_def)
next
  case False
  then have "map_of (caches w) name = None"
    by (simp add: map_of_eq_None_iff)
  with False show ?thesis
    by (auto simp: caches_open_def stored_in_def map_add_def split: option.splits)
qed

lemma network_store_all [simp]: "network (store_all name us w) = network w"
  by (induction us arbitrary: w) (auto split: sum.splits)

lemma names_store_all [simp]: "map fst (caches (store_all name us w)) = map fst (caches w)"
  by (induction us arbitrary: w) (auto split: sum.splits)

text \<open>
  After \<open>store_all\<close>, the bucket answers every listed URL that the network answered with
  that answer, and every other key as before.
\<close>

lemma stored_in_store_all:
  "name \<in> fst ` set (caches w) \<Longrightarrow>
   stored_in (caches (store_all name us w)) name k =
     (case (if k \<in> set us then network w k else Inl undefined) of
        Inr resp \<Rightarrow> Some resp
      | Inl e \<Rightarrow> stored_in (caches w) name k)"
proof (induction us arbitrary: w)
  case Nil
  show ?case by simp
next
  case (Cons u us)
  show ?case
  proof (cases "network w u")
    case (Inl e)
    with Cons show ?thesis by (auto split: sum.splits)
  next
    case (Inr resp)
    have "name \<in> fst ` set (caches (cache_put name u resp w))"
      using Cons.prems names_bucket_put [of name u resp "caches w"]
      by (metis caches_cache_put set_map)
    from Cons.IH [OF this] Inr Cons.prems show ?thesis
      by (auto simp: stored_in_bucket_put split: sum.splits)
  qed
qed

lemma effects_fold_emit: "effects (fold (\<lambda>u. emit (f u)) us w) = effects w @ map f us"
  by (induction us arbitrary: w) auto

lemma caches_fold_emit [simp]: "caches (fold (\<lambda>u. emit (f u)) us w) = caches w"
  and network_fold_emit [simp]: "network (fold (\<lambda>u. emit (f u)) us w) = network w"
  by (induction us arbitrary: w) auto

section \<open>The fetch listener never reaches the data handler\<close>

text \<open>
  Claim C1. Every URL that contains \<^verbatim>\<open>.json\<close> contains \<^verbatim>\<open>.js\<close>, and the static test
  comes first and is a substring test. So a GET request whose URL contains \<^verbatim>\<open>.json\<close>
  takes the static branch, no request is classified \<open>Data\<close>, and the listener is equal
  to one with three branches in which \<^verbatim>\<open>handleDataFile\<close> does not occur.
\<close>

theorem fetch_never_reaches_data_handler:
  "fetch_listener w r =
     (if req_method r \<noteq> ''GET'' then None
      else if isStaticFile r then Some (handleStaticFile w r)
      else if isImage r then Some (handleImage w r)
      else Some (handleDynamicRequest w r))
   \<and> fetch_listener w r =
       (if req_method r \<noteq> ''GET'' then None else Some (handler_of (classify r) w r))
   \<and> classify r \<noteq> Data
   \<and> (str_includes (url r) ''.json'' \<longrightarrow> classify r = Static)"
  using static_of_json [of "url r"]
  by (auto simp: fetch_listener_def classify_def isStaticFile_def isDataFile_def)

theorem fetch_never_reaches_data_handler_witness:
  "str_includes (url genres_request) ''.json''
   \<and> classify genres_request = Static
   \<and> fetch_listener fresh_offline_world genres_request =
       Some (handleStaticFile fresh_offline_world genres_request)"
proof -
  have j: "str_includes (url genres_request) ''.json''"
    by (simp add: genres_request_def)
  have m: "req_method genres_request = ''GET''"
    by (simp add: genres_request_def)
  note all = fetch_never_reaches_data_handler [of fresh_offline_world genres_request]
  from all j have c: "classify genres_request = Static"
    by blast
  from all have "fetch_listener fresh_offline_world genres_request =
      (if req_method genres_request \<noteq> ''GET'' then None
       else Some (handler_of (classify genres_request) fresh_offline_world genres_request))"
    by blast
  with c j m show ?thesis
    by simp
qed

section \<open>Classification is by substring, not by suffix\<close>




section \<open>Install settles as resolved, whatever the manifest fetches do\<close>




section \<open>Cache hits\<close>

lemma caches_match_found:
  "(name, b) \<in> set cs \<Longrightarrow> map_of b key = Some stored \<Longrightarrow> \<exists>entry. caches_match cs key = Some entry"
  by (induction cs) (auto split: option.splits)

lemma caches_match_is_stored:
  "caches_match cs key = Some entry \<Longrightarrow> \<exists>name b. (name, b) \<in> set cs \<and> map_of b key = Some entry"
proof (induction cs)
  case Nil
  then show ?case by simp
next
  case (Cons nb cs)
  obtain n b0 where nb: "nb = (n, b0)" by (cases nb)
  show ?case
  proof (cases "map_of b0 key")
    case None
    with Cons nb obtain name b where "(name, b) \<in> set cs" "map_of b key = Some entry"
      by auto
    then show ?thesis by auto
  next
    case (Some stored)
    with Cons.prems nb have "map_of b0 key = Some entry" by simp
    then show ?thesis using nb by auto
  qed
qed

lemma caches_match_none:
  "caches_match cs key = None \<longleftrightarrow> (\<forall>(name, b) \<in> set cs. map_of b key = None)"
  by (induction cs) (auto split: option.splits)

text \<open>
  Claim C4. When some bucket of the store holds an entry for the URL of a GET request,
  \<^verbatim>\<open>caches.match(request)\<close> finds an entry (the one of the first such bucket in creation
  order), and each of the three cache-first handlers returns that stored entry and leaves
  the world exactly as it was: no fetch is recorded, no cache write, no log line.
\<close>

theorem cache_hit_makes_no_network_call:
  assumes "req_method r = ''GET''"
    and "(name, b) \<in> set (caches w)"
    and "map_of b (url r) = Some stored"
  shows "\<exists>entry.
           caches_match_request (caches w) r = Some entry
           \<and> (\<exists>name' b'. (name', b') \<in> set (caches w) \<and> map_of b' (url r) = Some entry)
           \<and> handleStaticFile w r = (Inr (Some entry), w)
           \<and> handleImage w r = (Inr (Some entry), w)
           \<and> handleDataFile w r = (Inr (Some entry), w)"
proof -
  from caches_match_found [OF assms(2,3)] obtain entry
    where e: "caches_match (caches w) (url r) = Some entry" by blast
  with assms(1) have m: "caches_match_request (caches w) r = Some entry"
    by (simp add: caches_match_request_def)
  from caches_match_is_stored [OF e] obtain name' b'
    where s: "(name', b') \<in> set (caches w)" "map_of b' (url r) = Some entry" by blast
  have "handleStaticFile w r = (Inr (Some entry), w)"
    by (simp add: handleStaticFile_def m)
  moreover have "handleImage w r = (Inr (Some entry), w)"
    by (simp add: handleImage_def m)
  moreover have "handleDataFile w r = (Inr (Some entry), w)"
    by (simp add: handleDataFile_def m)
  ultimately show ?thesis
    using m s by blast
qed

theorem cache_hit_makes_no_network_call_witness:
  "req_method root_request = ''GET''
   \<and> (STATIC_CACHE, [(url root_request, home_page)])
        \<in> set (caches (fresh_offline_world\<lparr>caches := [(STATIC_CACHE, [(url root_request, home_page)])]\<rparr>))
   \<and> map_of [(url root_request, home_page)] (url root_request) = Some home_page
   \<and> (\<exists>entry.
         handleStaticFile
           (fresh_offline_world\<lparr>caches := [(STATIC_CACHE, [(url root_request, home_page)])]\<rparr>)
           root_request
         = (Inr (Some entry),
            fresh_offline_world\<lparr>caches := [(STATIC_CACHE, [(url root_request, home_page)])]\<rparr>))"
proof -
  let ?w = "fresh_offline_world\<lparr>caches := [(STATIC_CACHE, [(url root_request, home_page)])]\<rparr>"
  have g: "req_method root_request = ''GET''"
    by (simp add: root_request_def)
  have i: "(STATIC_CACHE, [(url root_request, home_page)]) \<in> set (caches ?w)"
    by simp
  have m: "map_of [(url root_request, home_page)] (url root_request) = Some home_page"
    by simp
  from cache_hit_makes_no_network_call [OF g i m] g i m show ?thesis
    by blast
qed

section \<open>Activation\<close>

lemma deleted_names_append: "deleted_names (es @ fs) = deleted_names es @ deleted_names fs"
  by (induction es rule: deleted_names.induct) auto

lemma caches_delete_if_old:
  "caches (delete_if_old n w) = filter (\<lambda>(m, b). m \<noteq> n \<or> is_current n) (caches w)"
  by (auto simp: delete_if_old_def caches_delete_def is_current_def intro: filter_cong)

lemma deleted_delete_if_old:
  "deleted_names (effects (delete_if_old n w)) =
     deleted_names (effects w) @ (if is_current n then [] else [n])"
  by (auto simp: delete_if_old_def caches_delete_def is_current_def deleted_names_append)

lemma caches_fold_delete:
  "caches (fold delete_if_old names w) =
     filter (\<lambda>(m, b). m \<notin> set names \<or> is_current m) (caches w)"
proof (induction names arbitrary: w)
  case Nil
  show ?case by simp
next
  case (Cons n names)
  show ?case
    by (simp add: Cons.IH caches_delete_if_old) (auto intro: filter_cong)
qed

lemma deleted_fold_delete:
  "deleted_names (effects (fold delete_if_old names w)) =
     deleted_names (effects w) @ filter (\<lambda>n. \<not> is_current n) names"
  by (induction names arbitrary: w) (auto simp: deleted_delete_if_old)

text \<open>
  Claim C5. After activation the store holds exactly the buckets it held whose name is
  one of the three current names, with their contents and in their order, and the names
  deleted are exactly the others. For the store
  \<^verbatim>\<open>["startanime-static-v1.0.0", "startanime-static-v0.9.0", "other-app-cache"]\<close>,
  activation deletes \<^verbatim>\<open>startanime-static-v0.9.0\<close> and \<^verbatim>\<open>other-app-cache\<close> and keeps
  \<^verbatim>\<open>startanime-static-v1.0.0\<close>.
\<close>

theorem activate_deletes_exactly_old_buckets:
  "caches (snd (activate w)) =
     filter (\<lambda>(n, b). n \<in> {STATIC_CACHE, DYNAMIC_CACHE, IMAGE_CACHE}) (caches w)
   \<and> deleted_names (effects (snd (activate w))) =
       deleted_names (effects w)
       @ filter (\<lambda>n. n \<notin> {STATIC_CACHE, DYNAMIC_CACHE, IMAGE_CACHE}) (map fst (caches w))
   \<and> map fst (caches example_buckets_world) =
       [''startanime-static-v1.0.0'', ''startanime-static-v0.9.0'', ''other-app-cache'']
   \<and> deleted_names (effects (snd (activate example_buckets_world))) =
       [''startanime-static-v0.9.0'', ''other-app-cache'']
   \<and> caches (snd (activate example_buckets_world)) =
       [(''startanime-static-v1.0.0'', [(''https://startanime.app/index.html'', home_page)])]"
proof -
  have c: "caches (snd (activate w)) =
     filter (\<lambda>(n, b). n \<in> {STATIC_CACHE, DYNAMIC_CACHE, IMAGE_CACHE}) (caches w)" for w
  proof -
    have "filter (\<lambda>(m, b). m \<notin> set (map fst (caches w)) \<or> is_current m) (caches w) =
          filter (\<lambda>(n, b). n \<in> {STATIC_CACHE, DYNAMIC_CACHE, IMAGE_CACHE}) (caches w)"
      by (rule filter_cong) (force simp: is_current_def)+
    then show ?thesis
      by (simp add: activate_def Let_def caches_fold_delete)
  qed
  have d: "deleted_names (effects (snd (activate w))) =
       deleted_names (effects w)
       @ filter (\<lambda>n. n \<notin> {STATIC_CACHE, DYNAMIC_CACHE, IMAGE_CACHE}) (map fst (caches w))" for w
    by (simp add: activate_def Let_def deleted_names_append deleted_fold_delete is_current_def)
  have e: "map fst (caches example_buckets_world) =
       [''startanime-static-v1.0.0'', ''startanime-static-v0.9.0'', ''other-app-cache'']"
    by (simp add: example_buckets_world_def)
  show ?thesis
    unfolding c d
    by (simp add: example_buckets_world_def STATIC_CACHE_def DYNAMIC_CACHE_def IMAGE_CACHE_def)
qed

section \<open>The dynamic handler\<close>




section \<open>The image handler without its placeholder\<close>

text \<open>
  Claim C7 at a failing input. The manifest does not list
  \<^verbatim>\<open>/assets/images/placeholder.jpg\<close>, so after an install no bucket holds it. A cover
  image that is not cached is requested while the network is down: the handler returns
  the result of \<^verbatim>\<open>caches.match('/assets/images/placeholder.jpg')\<close>, which is
  \<^verbatim>\<open>undefined\<close>, not a response.
\<close>

theorem image_fallback_without_placeholder:
  "classify cover_request = Image
   \<and> caches_match_request (caches installed_offline_world) cover_request = None
   \<and> network installed_offline_world (url cover_request) = Inl (TypeError ''Failed to fetch'')
   \<and> ''/assets/images/placeholder.jpg'' \<notin> set STATIC_FILES
   \<and> fst (handleImage installed_offline_world cover_request) = Inr None"
  by code_simp

section \<open>The data handler offline\<close>



section \<open>Loading a component twice\<close>

lemma componentCache_page_emit [simp]: "componentCache (page_emit e l) = componentCache l"
  and page_effects_page_emit [simp]: "page_effects (page_emit e l) = page_effects l @ [e]"
  and page_network_page_emit [simp]: "page_network (page_emit e l) = page_network l"
  and page_dom_page_emit [simp]: "page_dom (page_emit e l) = page_dom l"
  by (simp_all add: page_emit_def)

lemma fetched_urls_append: "fetched_urls (es @ fs) = fetched_urls es @ fetched_urls fs"
  by (induction es rule: fetched_urls.induct) auto

lemma memo_after_extract:
  "extract_and_memoize l name resp = (Inr markup, l') \<Longrightarrow>
   map_of (componentCache l') name = Some markup"
  by (auto simp: extract_and_memoize_def Let_def update_conv')

lemma rethrow_never_returns: "log_and_rethrow l name e \<noteq> (Inr markup, l')"
  by (simp add: log_and_rethrow_def)

lemma fetched_after_extract:
  "extract_and_memoize l name resp = (r, l') \<Longrightarrow>
   fetched_urls (page_effects l') = fetched_urls (page_effects l)"
  by (auto simp: extract_and_memoize_def Let_def fetched_urls_append)

text \<open>
  Claim C9, as stated, fails: on a page without \<^verbatim>\<open>header-template.html\<close>, the first
  load of \<^verbatim>\<open>header\<close> fetches the template file, gets a 404, and fetches
  \<^verbatim>\<open>header.html\<close>. Two loads return the same markup and make two network fetches in
  total, not one.
\<close>

theorem two_loads_two_fetches_counterexample:
  "fst (loadComponent example_loader ''header'') = Inr header_html
   \<and> fst (loadComponent (snd (loadComponent example_loader ''header'')) ''header'') = Inr header_html
   \<and> fetched_urls (page_effects
        (snd (loadComponent (snd (loadComponent example_loader ''header'')) ''header'')))
      = [''./components/header-template.html'', ''./components/header.html'']"
  by code_simp

text \<open>
  Claim C9, amended. When a load of a component returns markup, a second load of the same
  name returns the same markup and leaves the loader exactly as it was: it is served from
  the memo, with no fetch and no write to the memo. The first load, when the memo did not
  have the name, made one fetch if the template file answered with an ok status and two,
  the template file and then the full file, if it did not; when the memo had the name it
  changed nothing either.
\<close>

theorem second_load_is_served_from_memo:
  assumes "loadComponent l name = (Inr markup, l1)"
  shows "loadComponent l1 name = (Inr markup, l1)
         \<and> (map_of (componentCache l) name = None \<longrightarrow>
              fetched_urls (page_effects l1) =
                fetched_urls (page_effects l)
                @ (case page_network l (template_url name) of
                     Inr resp \<Rightarrow>
                       if ok (response.truncate resp) then [template_url name]
                       else [template_url name, fallback_url name]
                   | Inl e \<Rightarrow> []))
         \<and> (map_of (componentCache l) name \<noteq> None \<longrightarrow> l1 = l)"
proof -
  have memo: "map_of (componentCache l1) name = Some markup"
    using assms
    by (auto simp: loadComponent_def page_fetch_def rethrow_never_returns
        split: option.splits sum.splits if_splits dest: memo_after_extract)
  then have "loadComponent l1 name = (Inr markup, l1)"
    by (simp add: loadComponent_def)
  moreover have "map_of (componentCache l) name = None \<longrightarrow>
              fetched_urls (page_effects l1) =
                fetched_urls (page_effects l)
                @ (case page_network l (template_url name) of
                     Inr resp \<Rightarrow>
                       if ok (response.truncate resp) then [template_url name]
                       else [template_url name, fallback_url name]
                   | Inl e \<Rightarrow> [])"
    using assms
    by (auto simp: loadComponent_def page_fetch_def rethrow_never_returns fetched_urls_append
        split: option.splits sum.splits if_splits dest!: fetched_after_extract)
  moreover have "map_of (componentCache l) name \<noteq> None \<longrightarrow> l1 = l"
    using assms by (auto simp: loadComponent_def)
  ultimately show ?thesis by blast
qed

theorem second_load_is_served_from_memo_witness:
  "loadComponent example_loader ''header''
     = (Inr header_html, snd (loadComponent example_loader ''header''))
   \<and> loadComponent (snd (loadComponent example_loader ''header'')) ''header''
     = (Inr header_html, snd (loadComponent example_loader ''header''))
   \<and> map_of (componentCache example_loader) ''header'' = None
   \<and> fetched_urls (page_effects (snd (loadComponent example_loader ''header'')))
     = [template_url ''header'', fallback_url ''header'']"
proof -
  have r: "fst (loadComponent example_loader ''header'') = Inr header_html"
    by code_simp
  then have first: "loadComponent example_loader ''header''
      = (Inr header_html, snd (loadComponent example_loader ''header''))"
    by (simp add: prod_eq_iff)
  have memo: "map_of (componentCache example_loader) ''header'' = None"
    by (simp add: example_loader_def)
  have net: "page_network example_loader (template_url ''header'')
      = Inr \<lparr>status = 404, headers = [], body = ''Not Found'', statusText = ''Not Found''\<rparr>"
    by (simp add: example_loader_def example_page_network_def template_url_def)
  have eff: "page_effects example_loader = []"
    by (simp add: example_loader_def)
  from second_load_is_served_from_memo [OF first] first memo net eff show ?thesis
    by (simp add: ok_def response.truncate_def)
qed

section \<open>Template substitution\<close>

lemma strip_prefix_iff: "strip_prefix p s = Some r \<longleftrightarrow> s = p @ r"
  by (induction p s rule: strip_prefix.induct) auto

lemma expand_replacement_plain:
  "CHR ''$'' \<notin> set v \<Longrightarrow> expand_replacement v matched before after = v"
  by (induction v matched before after rule: expand_replacement.induct) auto

lemma match_placeholder_sound:
  assumes "match_placeholder key s = Some (matched, rest)"
  shows "s = matched @ rest
         \<and> (\<exists>ws1 ws2. list_all is_space ws1 \<and> list_all is_space ws2
               \<and> matched = ''{{'' @ ws1 @ key @ ws2 @ ''}}'')"
proof -
  from assms obtain s1 s2 where
    s1: "s = ''{{'' @ s1"
    and s2: "dropWhile is_space s1 = key @ s2"
    and r: "dropWhile is_space s2 = ''}}'' @ rest"
    and m: "matched = ''{{'' @ takeWhile is_space s1 @ key @ takeWhile is_space s2 @ ''}}''"
    by (auto simp: match_placeholder_def strip_prefix_iff split: option.splits)
  have "s1 = takeWhile is_space s1 @ key @ takeWhile is_space s2 @ ''}}'' @ rest"
    using takeWhile_dropWhile_id [of is_space s1] takeWhile_dropWhile_id [of is_space s2] s2 r
    by metis
  with s1 m have "s = matched @ rest"
    by simp
  moreover have "list_all is_space (takeWhile is_space s1)" "list_all is_space (takeWhile is_space s2)"
    by (auto simp: list_all_iff dest: set_takeWhileD)
  ultimately show ?thesis
    using m by blast
qed

lemma span_spaces:
  assumes "list_all P ws" and "t = [] \<or> \<not> P (hd t)"
  shows "dropWhile P (ws @ t) = t" and "takeWhile P (ws @ t) = ws"
proof -
  have base: "dropWhile P t = t \<and> takeWhile P t = []"
    using assms(2) by (cases t) auto
  from assms(1) base show "dropWhile P (ws @ t) = t" and "takeWhile P (ws @ t) = ws"
    by (induction ws) auto
qed

lemma match_placeholder_complete:
  assumes "plain_key key" and "list_all is_space ws1" and "list_all is_space ws2"
  shows "match_placeholder key (''{{'' @ ws1 @ key @ ws2 @ ''}}'' @ rest)
         = Some (''{{'' @ ws1 @ key @ ws2 @ ''}}'', rest)"
proof -
  have brace: "\<not> is_space (CHR ''}'')"
    by (simp add: is_space_def)
  let ?tail = "''}}'' @ rest"
  have d2: "dropWhile is_space (ws2 @ ?tail) = ?tail"
    and t2: "takeWhile is_space (ws2 @ ?tail) = ws2"
    using span_spaces [OF assms(3), of ?tail] brace by simp_all
  show ?thesis
  proof (cases key)
    case Nil
    have "list_all is_space (ws1 @ ws2)"
      using assms(2,3) by simp
    from span_spaces [OF this, of ?tail] brace
    have "dropWhile is_space (ws1 @ ws2 @ ?tail) = ?tail"
      and "takeWhile is_space (ws1 @ ws2 @ ?tail) = ws1 @ ws2"
      by simp_all
    with Nil brace show ?thesis
      by (simp add: match_placeholder_def)
  next
    case (Cons k ks)
    with assms(1) have "\<not> is_space (hd (key @ ws2 @ ?tail))"
      by (simp add: plain_key_def)
    from span_spaces [OF assms(2), of "key @ ws2 @ ?tail"] this
    have d1: "dropWhile is_space (ws1 @ key @ ws2 @ ?tail) = key @ ws2 @ ?tail"
      and t1: "takeWhile is_space (ws1 @ key @ ws2 @ ?tail) = ws1"
      by simp_all
    have k: "strip_prefix key (key @ ws2 @ ?tail) = Some (ws2 @ ?tail)"
      by (simp add: strip_prefix_iff)
    have b: "strip_prefix ''}}'' ?tail = Some rest"
      by (simp add: strip_prefix_iff)
    show ?thesis
      using d1 t1 d2 t2 k b by (simp add: match_placeholder_def)
  qed
qed

lemma replace_from_no_match:
  "(\<And>ps ss. s = ps @ ss \<Longrightarrow> match_placeholder key ss = None) \<Longrightarrow>
   replace_from key val before s = s"
proof (induction s arbitrary: before)
  case Nil
  show ?case by simp
next
  case (Cons c cs)
  have "match_placeholder key (c # cs) = None"
    using Cons.prems [of "[]" "c # cs"] by simp
  moreover have "replace_from key val (before @ [c]) cs = cs"
  proof (rule Cons.IH)
    fix ps ss assume "cs = ps @ ss"
    then show "match_placeholder key ss = None"
      using Cons.prems [of "c # ps" ss] by simp
  qed
  ultimately show ?case by simp
qed

lemma replace_from_match:
  assumes "plain_key key" and "list_all is_space ws1" and "list_all is_space ws2"
    and "CHR ''$'' \<notin> set val"
  shows "replace_from key val before (''{{'' @ ws1 @ key @ ws2 @ ''}}'' @ rest)
         = val @ replace_from key val (before @ ''{{'' @ ws1 @ key @ ws2 @ ''}}'') rest"
  using match_placeholder_complete [OF assms(1-3), of rest] expand_replacement_plain [OF assms(4)]
  by simp

text \<open>
  Claim C10 at a failing input. The value is handed to \<^verbatim>\<open>String.prototype.replace\<close> as
  its replacement string, in which \<^verbatim>\<open>$$\<close> stands for one dollar sign: the placeholder of
  \<^verbatim>\<open>name\<close> is replaced by \<^verbatim>\<open>Ca$h\<close>, not by the value \<^verbatim>\<open>Ca$$h\<close>. The examples of the
  claim come out as it says: the value \<^verbatim>\<open>Naruto\<close> replaces the placeholder, with or
  without white space inside the braces; empty data and malformed data leave the
  template as it is.
\<close>

theorem template_value_with_dollars:
  \<open>processComponentTemplate ''<p>{{name}}</p>'' (Entries [(''name'', ''Ca$$h'')]) = Some ''<p>Ca$h</p>''
   \<and> processComponentTemplate ''<p>{{name}}</p>'' (Entries [(''name'', ''Naruto'')]) = Some ''<p>Naruto</p>''
   \<and> processComponentTemplate ''<p>{{ name }}</p>'' (Entries [(''name'', ''Naruto'')]) = Some ''<p>Naruto</p>''
   \<and> processComponentTemplate ''<p>{{name}}</p>'' (Entries []) = Some ''<p>{{name}}</p>''
   \<and> processComponentTemplate ''<p>{{name}}</p>'' Malformed = Some ''<p>{{name}}</p>''\<close>
  by code_simp

end
